theory Spec2Isabelle
  imports Complex_Main "HOL-Library.AList" "HOL-Library.List_Lexorder" "HOL-Library.Word"
begin

section \<open>Strings\<close>

text \<open>
  A Go string is modelled as the list of its Unicode code points. The program reads its
  strings rune by rune (\<^verbatim>\<open>bufio.ScanWords\<close>, \<^verbatim>\<open>strings.ToLower\<close>) or
  compares them (\<^verbatim>\<open>==\<close>, \<^verbatim>\<open>>=\<close>, map keys). Go compares the UTF-8 bytes; on
  well-formed UTF-8 the byte-wise lexicographic order is the lexicographic order of the
  code points, which is the list order of \<^verbatim>\<open>HOL-Library.List_Lexorder\<close> (a proper
  prefix is smaller). Strings that are not well-formed UTF-8 are outside the model.
\<close>

type_synonym rune = nat
type_synonym str = "rune list"

text \<open>
  \<^verbatim>\<open>strings.ToLower\<close> maps every rune with \<^verbatim>\<open>unicode.ToLower\<close>. The model covers
  the blocks the program's data uses: Basic Latin \<open>A-Z\<close> (U+0041..U+005A, shifted by 32),
  the Cyrillic capitals U+0410..U+042F (shifted by 32) and U+0400..U+040F (shifted by 80).
  Every other code point is left as it is; upper-case letters of other scripts are
  outside the model.
\<close>

definition ToLower_rune :: "rune \<Rightarrow> rune" where
  "ToLower_rune r =
     (if 65 \<le> r \<and> r \<le> 90 then r + 32
      else if 1040 \<le> r \<and> r \<le> 1071 then r + 32
      else if 1024 \<le> r \<and> r \<le> 1039 then r + 80
      else r)"

definition ToLower :: "str \<Rightarrow> str" where
  "ToLower s = map ToLower_rune s"

section \<open>The stopword list (classifier.go)\<close>

text \<open>
  The literal of \<^verbatim>\<open>stopwords\<close>, one definition per source line (lines 10 to 41 of
  classifier.go), every word written as its code points: Cyrillic small \<open>a\<close> is 1072
  (U+0430), \<open>ya\<close> is 1103 (U+044F), \<open>yo\<close> is 1105 (U+0451), the space inside a
  two-word entry is 32, and the third entry of line 10 is the Latin letter \<open>c\<close> (99).
\<close>

definition stopwords_l10 :: "str list" where
  "stopwords_l10 = [[1084,1085,1077], [1079,1076,1088,1072,1074,1089,1090,1074], [99], [1072],
     [1072,1083,1083,1086], [1073,1077,1079], [1073,1077,1083,1099,1081],
     [1073,1083,1080,1079,1082,1086], [1073,1086,1083,1077,1077], [1073,1086,1083,1100,1096,1077],
     [1073,1086,1083,1100,1096,1086,1081], [1073,1091,1076,1077,1084], [1073,1091,1076,1077,1090],
     [1073,1091,1076,1077,1090,1077], [1073,1091,1076,1077,1096,1100], [1073,1091,1076,1090,1086],
     [1073,1091,1076,1091], [1073,1091,1076,1091,1090], [1073,1091,1076,1100]]"

definition stopwords_l11 :: "str list" where
  "stopwords_l11 = [[1074,1086,1089,1100,1084,1086,1081], [1074,1086,1090],
     [1074,1087,1088,1086,1095,1077,1084], [1074,1088,1077,1084,1077,1085,1080],
     [1074,1088,1077,1084,1103], [1074,1089,1077], [1074,1089,1077,32,1077,1097,1077],
     [1074,1089,1077,1075,1076,1072], [1074,1089,1077,1075,1086], [1074,1089,1077,1084],
     [1074,1089,1077,1084,1080], [1074,1089,1077,1084,1091], [1074,1089,1077,1093],
     [1074,1089,1077,1102], [1074,1089,1102], [1074,1089,1102,1076,1091]]"

definition stopwords_l12 :: "str list" where
  "stopwords_l12 = [[1073,1099], [1073,1099,1074,1072,1077,1090], [1073,1099,1074,1100],
     [1073,1099,1083], [1073,1099,1083,1072], [1073,1099,1083,1080], [1073,1099,1083,1086],
     [1073,1099,1090,1100], [1074], [1074,1072,1078,1085,1072,1103],
     [1074,1072,1078,1085,1086,1077], [1074,1072,1078,1085,1099,1077],
     [1074,1072,1078,1085,1099,1081], [1074,1072,1084], [1074,1072,1084,1080], [1074,1072,1089],
     [1074,1072,1096], [1074,1072,1096,1072], [1074,1072,1096,1077]]"

definition stopwords_l13 :: "str list" where
  "stopwords_l13 = [[1074,1072,1096,1080], [1074,1074,1077,1088,1093], [1074,1076,1072,1083,1080],
     [1074,1076,1088,1091,1075], [1074,1077,1076,1100], [1074,1077,1079,1076,1077],
     [1074,1077,1088,1085,1091,1090,1100,1089,1103], [1074,1077,1089,1100],
     [1074,1077,1095,1077,1088], [1074,1079,1075,1083,1103,1076], [1074,1079,1103,1090,1100],
     [1074,1080,1076], [1074,1080,1076,1077,1083], [1074,1080,1076,1077,1090,1100],
     [1074,1084,1077,1089,1090,1077], [1074,1085,1077], [1074,1085,1080,1079]]"

definition stopwords_l14 :: "str list" where
  "stopwords_l14 = [[1074,1085,1080,1079,1091], [1074,1086], [1074,1086,1076,1072],
     [1074,1086,1081,1085,1072], [1074,1086,1082,1088,1091,1075], [1074,1086,1085],
     [1074,1086,1086,1073,1097,1077], [1074,1086,1087,1088,1086,1089],
     [1074,1086,1089,1077,1084,1085,1072,1076,1094,1072,1090,1099,1081],
     [1074,1086,1089,1077,1084,1085,1072,1076,1094,1072,1090,1100], [1074,1086,1089,1077,1084,1100],
     [1074,1089,1103], [1074,1089,1105], [1074,1090,1086,1088,1086,1081], [1074,1099],
     [1074,1099,1081,1090,1080]]"

definition stopwords_l15 :: "str list" where
  "stopwords_l15 = [[1075], [1075,1076,1077], [1075,1083,1072,1074,1085,1099,1081],
     [1075,1083,1072,1079], [1075,1086,1074,1086,1088,1080,1083],
     [1075,1086,1074,1086,1088,1080,1090], [1075,1086,1074,1086,1088,1080,1090,1100],
     [1075,1086,1076], [1075,1086,1076,1072], [1075,1086,1076,1091],
     [1075,1086,1083,1086,1074,1072], [1075,1086,1083,1086,1089], [1075,1086,1088,1086,1076],
     [1076,1072], [1076,1072,1074,1072,1090,1100], [1076,1072,1074,1085,1086],
     [1076,1072,1078,1077], [1076,1072,1083,1077,1082,1080,1081]]"

definition stopwords_l16 :: "str list" where
  "stopwords_l16 = [[1076,1072,1083,1077,1082,1086], [1090,1088,1080],
     [1090,1088,1080,1085,1072,1076,1094,1072,1090,1099,1081],
     [1090,1088,1080,1085,1072,1076,1094,1072,1090,1100], [1090,1091], [1090,1091,1076,1072],
     [1090,1091,1090], [1090,1099], [1090,1099,1089,1103,1095], [1091],
     [1091,1074,1080,1076,1077,1090,1100], [1091,1078], [1091,1078,1077],
     [1091,1083,1080,1094,1072], [1091,1084,1077,1090,1100], [1091,1090,1088,1086],
     [1093,1086,1088,1086,1096,1080,1081], [1093,1086,1088,1086,1096,1086]]"

definition stopwords_l17 :: "str list" where
  "stopwords_l17 = [[1093,1086,1090,1077,1083,32,1073,1099], [1093,1086,1090,1077,1090,1100],
     [1093,1086,1090,1100], [1093,1086,1090,1103], [1093,1086,1095,1077,1096,1100],
     [1095,1072,1089], [1095,1072,1089,1090,1086], [1095,1072,1089,1090,1100],
     [1095,1072,1097,1077], [1095,1077,1075,1086], [1095,1077,1083,1086,1074,1077,1082],
     [1095,1077,1084], [1095,1077,1084,1091], [1095,1077,1088,1077,1079],
     [1095,1077,1090,1074,1077,1088,1090,1099,1081], [1095,1077,1090,1099,1088,1077]]"

definition stopwords_l18 :: "str list" where
  "stopwords_l18 = [[1095,1077,1090,1099,1088,1085,1072,1076,1094,1072,1090,1099,1081],
     [1095,1077,1090,1099,1088,1085,1072,1076,1094,1072,1090,1100], [1095,1090,1086],
     [1095,1090,1086,1073], [1095,1090,1086,1073,1099], [1095,1091,1090,1100],
     [1096,1077,1089,1090,1085,1072,1076,1094,1072,1090,1099,1081],
     [1096,1077,1089,1090,1085,1072,1076,1094,1072,1090,1100], [1096,1077,1089,1090,1086,1081],
     [1096,1077,1089,1090,1100], [1101,1090,1072], [1101,1090,1080], [1101,1090,1080,1084],
     [1101,1090,1080,1084,1080], [1101,1090,1080,1093]]"

definition stopwords_l19 :: "str list" where
  "stopwords_l19 = [[1101,1090,1086], [1101,1090,1086,1075,1086], [1101,1090,1086,1081],
     [1101,1090,1086,1084], [1101,1090,1086,1084,1091], [1101,1090,1086,1090], [1101,1090,1091],
     [1103], [1103,1074,1083,1103,1102,1089,1100], [1076,1072,1083,1100,1096,1077],
     [1076,1072,1088,1086,1084], [1076,1072,1090,1100], [1076,1074,1072],
     [1076,1074,1072,1076,1094,1072,1090,1099,1081], [1076,1074,1072,1076,1094,1072,1090,1100],
     [1076,1074,1077], [1076,1074,1077,1085,1072,1076,1094,1072,1090,1099,1081]]"

definition stopwords_l20 :: "str list" where
  "stopwords_l20 = [[1076,1074,1077,1085,1072,1076,1094,1072,1090,1100], [1076,1074,1077,1088,1100],
     [1076,1074,1091,1093], [1076,1077,1074,1103,1090,1085,1072,1076,1094,1072,1090,1099,1081],
     [1076,1077,1074,1103,1090,1085,1072,1076,1094,1072,1090,1100],
     [1076,1077,1074,1103,1090,1099,1081], [1076,1077,1074,1103,1090,1100],
     [1076,1077,1081,1089,1090,1074,1080,1090,1077,1083,1100,1085,1086], [1076,1077,1083],
     [1076,1077,1083,1072,1083], [1076,1077,1083,1072,1090,1100], [1076,1077,1083,1072,1102],
     [1076,1077,1083,1086], [1076,1077,1085,1100]]"

definition stopwords_l21 :: "str list" where
  "stopwords_l21 = [[1076,1077,1085,1100,1075,1080], [1076,1077,1089,1103,1090,1099,1081],
     [1076,1077,1089,1103,1090,1100], [1076,1083,1103], [1076,1086],
     [1076,1086,1074,1086,1083,1100,1085,1086], [1076,1086,1083,1075,1086],
     [1076,1086,1083,1078,1077,1085], [1076,1086,1083,1078,1085,1086],
     [1076,1086,1083,1078,1085,1099,1081], [1076,1086,1084], [1076,1086,1088,1086,1075,1072],
     [1076,1088,1091,1075], [1076,1088,1091,1075,1072,1103], [1076,1088,1091,1075,1080,1077],
     [1076,1088,1091,1075,1080,1093], [1076,1088,1091,1075,1086]]"

definition stopwords_l22 :: "str list" where
  "stopwords_l22 = [[1076,1088,1091,1075,1086,1077], [1076,1088,1091,1075,1086,1081],
     [1076,1091,1084,1072,1090,1100], [1076,1091,1096,1072], [1077], [1077,1075,1086], [1077,1077],
     [1077,1081], [1077,1084,1091], [1077,1089,1083,1080], [1077,1089,1090,1100], [1077,1097,1077],
     [1077,1097,1105], [1077,1102], [1077,1105], [1078], [1078,1076,1072,1090,1100], [1078,1077],
     [1078,1077,1085,1072], [1078,1077,1085,1097,1080,1085,1072], [1078,1080,1079,1085,1100],
     [1078,1080,1090,1100]]"

definition stopwords_l23 :: "str list" where
  "stopwords_l23 = [[1079,1072], [1079,1072,1085,1103,1090], [1079,1072,1085,1103,1090,1072],
     [1079,1072,1085,1103,1090,1086], [1079,1072,1085,1103,1090,1099], [1079,1072,1090,1077,1084],
     [1079,1072,1090,1086], [1079,1072,1095,1077,1084], [1079,1076,1077,1089,1100],
     [1079,1077,1084,1083,1103], [1079,1085,1072,1090,1100], [1079,1085,1072,1095,1080,1090],
     [1079,1085,1072,1095,1080,1090,1100], [1080], [1080,1076,1080], [1080,1076,1090,1080],
     [1080,1079], [1080,1083,1080], [1080,1084], [1080,1084,1077,1077,1090]]"

definition stopwords_l24 :: "str list" where
  "stopwords_l24 = [[1080,1084,1077,1083], [1080,1084,1077,1085,1085,1086],
     [1080,1084,1077,1090,1100], [1080,1084,1080], [1080,1084,1103],
     [1080,1085,1086,1075,1076,1072], [1080,1093], [1082], [1082,1072,1078,1076,1072,1103],
     [1082,1072,1078,1076,1086,1077], [1082,1072,1078,1076,1099,1077],
     [1082,1072,1078,1076,1099,1081], [1082,1072,1078,1077,1090,1089,1103],
     [1082,1072,1079,1072,1090,1100,1089,1103], [1082,1072,1082], [1082,1072,1082,1072,1103],
     [1082,1072,1082,1086,1081], [1082,1077,1084], [1082,1085,1080,1075,1072]]"

definition stopwords_l25 :: "str list" where
  "stopwords_l25 = [[1082,1086,1075,1076,1072], [1082,1086,1075,1086], [1082,1086,1084],
     [1082,1086,1084,1085,1072,1090,1072], [1082,1086,1084,1091], [1082,1086,1085,1077,1094],
     [1082,1086,1085,1077,1095,1085,1086], [1082,1086,1090,1086,1088,1072,1103],
     [1082,1086,1090,1086,1088,1086,1075,1086], [1082,1086,1090,1086,1088,1086,1081],
     [1082,1086,1090,1086,1088,1099,1077], [1082,1086,1090,1086,1088,1099,1081],
     [1082,1086,1090,1086,1088,1099,1093], [1082,1088,1086,1084,1077],
     [1082,1088,1091,1075,1086,1084], [1082,1090,1086], [1082,1091,1076,1072]]"

definition stopwords_l26 :: "str list" where
  "stopwords_l26 = [[1083,1077,1078,1072,1090,1100], [1083,1077,1090], [1083,1080],
     [1083,1080,1094,1086], [1083,1080,1096,1100], [1083,1091,1095,1096,1077],
     [1083,1102,1073,1080,1090,1100], [1089,1086,1074,1077,1090,1089,1082,1080,1081],
     [1089,1086,1074,1089,1077,1084], [1089,1087,1072,1089,1080,1073,1086],
     [1089,1087,1088,1086,1089,1080,1090,1100], [1089,1088,1072,1079,1091], [1089,1090,1072,1083],
     [1089,1090,1072,1088,1099,1081], [1089,1090,1072,1090,1100], [1089,1090,1086,1083],
     [1089,1090,1086,1088,1086,1085,1072]]"

definition stopwords_l27 :: "str list" where
  "stopwords_l27 = [[1089,1090,1086,1103,1090,1100], [1089,1090,1088,1072,1085,1072],
     [1089,1091,1090,1100], [1089,1095,1080,1090,1072,1090,1100], [1090], [1090,1072],
     [1090,1072,1082], [1090,1072,1082,1072,1103], [1090,1072,1082,1078,1077],
     [1090,1072,1082,1080], [1090,1072,1082,1080,1077], [1090,1072,1082,1086,1077],
     [1090,1072,1082,1086,1081], [1090,1072,1084], [1090,1074,1086,1080], [1090,1074,1086,1081],
     [1090,1074,1086,1103], [1090,1074,1086,1105], [1090,1077], [1090,1077,1073,1077]]"

definition stopwords_l28 :: "str list" where
  "stopwords_l28 = [[1090,1077,1073,1103], [1090,1077,1084], [1090,1077,1084,1080],
     [1090,1077,1087,1077,1088,1100], [1090,1077,1093], [1083,1102,1076,1080], [1084],
     [1084,1072,1083,1077,1085,1100,1082,1080,1081], [1084,1072,1083,1086], [1084,1072,1090,1100],
     [1084,1072,1096,1080,1085,1072], [1084,1077,1078,1076,1091], [1084,1077,1083,1103],
     [1084,1077,1085,1077,1077], [1084,1077,1085,1100,1096,1077], [1084,1077,1085,1103],
     [1084,1077,1089,1090,1086], [1084,1080,1083,1083,1080,1086,1085,1086,1074]]"

definition stopwords_l29 :: "str list" where
  "stopwords_l29 = [[1084,1080,1084,1086], [1084,1080,1085,1091,1090,1072], [1084,1080,1088],
     [1084,1080,1088,1072], [1084,1085,1077], [1084,1085,1086,1075,1086],
     [1084,1085,1086,1075,1086,1095,1080,1089,1083,1077,1085,1085,1072,1103],
     [1084,1085,1086,1075,1086,1095,1080,1089,1083,1077,1085,1085,1086,1077],
     [1084,1085,1086,1075,1086,1095,1080,1089,1083,1077,1085,1085,1099,1077],
     [1084,1085,1086,1075,1086,1095,1080,1089,1083,1077,1085,1085,1099,1081], [1084,1085,1086,1081],
     [1084,1085,1086,1102], [1084,1086,1075], [1084,1086,1075,1091], [1084,1086,1075,1091,1090]]"

definition stopwords_l30 :: "str list" where
  "stopwords_l30 = [[1084,1086,1078], [1084,1086,1078,1077,1090],
     [1084,1086,1078,1077,1090,32,1073,1099,1090,1100], [1084,1086,1078,1085,1086],
     [1084,1086,1078,1093,1086], [1084,1086,1080], [1084,1086,1081], [1084,1086,1088],
     [1084,1086,1089,1082,1074,1072], [1084,1086,1095,1100], [1084,1086,1103], [1084,1086,1105],
     [1084,1099], [1085,1072], [1085,1072,1074,1077,1088,1093,1091], [1085,1072,1076],
     [1085,1072,1076,1086], [1085,1072,1079,1072,1076], [1085,1072,1080,1073,1086,1083,1077,1077],
     [1085,1072,1081,1090,1080]]"

definition stopwords_l31 :: "str list" where
  "stopwords_l31 = [[1085,1072,1082,1086,1085,1077,1094], [1085,1072,1084], [1085,1072,1084,1080],
     [1085,1072,1088,1086,1076], [1085,1072,1089], [1085,1072,1095,1072,1083,1072],
     [1085,1072,1095,1072,1090,1100], [1085,1072,1096], [1085,1072,1096,1072],
     [1085,1072,1096,1077], [1085,1072,1096,1080], [1085,1077], [1085,1077,1075,1086],
     [1085,1077,1076,1072,1074,1085,1086], [1085,1077,1076,1072,1083,1077,1082,1086],
     [1085,1077,1077], [1085,1077,1081], [1085,1077,1082,1086,1090,1086,1088,1099,1081],
     [1085,1077,1083,1100,1079,1103]]"

definition stopwords_l32 :: "str list" where
  "stopwords_l32 = [[1085,1077,1084], [1085,1077,1084,1085,1086,1075,1086], [1085,1077,1084,1091],
     [1085,1077,1087,1088,1077,1088,1099,1074,1085,1086], [1085,1077,1088,1077,1076,1082,1086],
     [1085,1077,1089,1082,1086,1083,1100,1082,1086], [1085,1077,1090], [1085,1077,1102],
     [1085,1077,1105], [1085,1080], [1085,1080,1073,1091,1076,1100], [1085,1080,1078,1077],
     [1085,1080,1079,1082,1086], [1085,1080,1082,1072,1082,1086,1081],
     [1085,1080,1082,1086,1075,1076,1072], [1085,1080,1082,1090,1086],
     [1085,1080,1082,1091,1076,1072], [1085,1080,1084]]"

definition stopwords_l33 :: "str list" where
  "stopwords_l33 = [[1085,1080,1084,1080], [1085,1080,1093], [1085,1080,1095,1077,1075,1086],
     [1085,1080,1095,1090,1086], [1085,1086], [1085,1086,1074,1099,1081], [1085,1086,1075,1072],
     [1085,1086,1095,1100], [1085,1091], [1085,1091,1078,1085,1086],
     [1085,1091,1078,1085,1099,1081], [1085,1093], [1086], [1086,1073], [1086,1073,1072],
     [1086,1073,1099,1095,1085,1086], [1086,1076,1080,1085],
     [1086,1076,1080,1085,1085,1072,1076,1094,1072,1090,1099,1081],
     [1086,1076,1080,1085,1085,1072,1076,1094,1072,1090,1100]]"

definition stopwords_l34 :: "str list" where
  "stopwords_l34 = [[1086,1076,1085,1072,1078,1076,1099], [1086,1076,1085,1072,1082,1086],
     [1086,1076,1085,1086,1075,1086], [1086,1076,1085,1086,1081],
     [1086,1082,1072,1079,1072,1090,1100,1089,1103], [1086,1082,1085,1086],
     [1086,1082,1086,1083,1086], [1086,1085], [1086,1085,1072], [1086,1085,1080], [1086,1085,1086],
     [1086,1087,1103,1090,1100], [1086,1089,1086,1073,1077,1085,1085,1086],
     [1086,1089,1090,1072,1090,1100,1089,1103], [1086,1090],
     [1086,1090,1074,1077,1090,1080,1090,1100], [1086,1090,1077,1094],
     [1086,1090,1082,1091,1076,1072]]"

definition stopwords_l35 :: "str list" where
  "stopwords_l35 = [[1086,1090,1086,1074,1089,1102,1076,1091], [1086,1090,1089,1102,1076,1072],
     [1086,1095,1077,1085,1100], [1087,1077,1088,1074,1099,1081], [1087,1077,1088,1077,1076],
     [1087,1080,1089,1072,1090,1100], [1087,1083,1077,1095,1086], [1087,1086], [1087,1086,1076],
     [1087,1086,1076,1086,1081,1076,1080], [1087,1086,1076,1091,1084,1072,1090,1100],
     [1087,1086,1078,1072,1083,1091,1081,1089,1090,1072], [1087,1086,1079,1078,1077],
     [1087,1086,1081,1090,1080], [1087,1086,1082,1072], [1087,1086,1083], [1090,1086],
     [1090,1086,1073,1086,1081], [1090,1086,1073,1086,1102]]"

definition stopwords_l36 :: "str list" where
  "stopwords_l36 = [[1090,1086,1074,1072,1088,1080,1097], [1090,1086,1075,1076,1072],
     [1090,1086,1075,1086], [1090,1086,1078,1077], [1090,1086,1083,1100,1082,1086],
     [1090,1086,1084], [1090,1086,1084,1091], [1090,1086,1090], [1090,1086,1102],
     [1090,1088,1077,1090,1080,1081], [1089,1083,1080,1096,1082,1086,1084],
     [1089,1083,1086,1074,1086], [1089,1083,1091,1095,1072,1081],
     [1089,1084,1086,1090,1088,1077,1090,1100], [1089,1085,1072,1095,1072,1083,1072],
     [1089,1085,1086,1074,1072], [1089,1086], [1089,1086,1073,1086,1081],
     [1089,1086,1073,1086,1102]]"

definition stopwords_l37 :: "str list" where
  "stopwords_l37 = [[1087,1086,1083,1091,1095,1080,1090,1100], [1087,1086,1084,1085,1080,1090,1100],
     [1087,1086,1085,1080,1084,1072,1090,1100], [1087,1086,1085,1103,1090,1100], [1087,1086,1088],
     [1087,1086,1088,1072], [1087,1086,1089,1083,1077],
     [1087,1086,1089,1083,1077,1076,1085,1080,1081],
     [1087,1086,1089,1084,1086,1090,1088,1077,1090,1100], [1087,1086,1089,1088,1077,1076,1080],
     [1087,1086,1090,1086,1084], [1087,1086,1090,1086,1084,1091], [1087,1086,1095,1077,1084,1091],
     [1087,1086,1095,1090,1080], [1087,1088,1072,1074,1076,1072],
     [1087,1088,1077,1082,1088,1072,1089,1085,1086]]"

definition stopwords_l38 :: "str list" where
  "stopwords_l38 = [[1087,1088,1080], [1087,1088,1086], [1087,1088,1086,1089,1090,1086],
     [1087,1088,1086,1090,1080,1074], [1087,1088,1086,1094,1077,1085,1090,1086,1074],
     [1087,1091,1090,1100], [1087,1103,1090,1085,1072,1076,1094,1072,1090,1099,1081],
     [1087,1103,1090,1085,1072,1076,1094,1072,1090,1100], [1087,1103,1090,1099,1081],
     [1087,1103,1090,1100], [1088,1072,1073,1086,1090,1072],
     [1088,1072,1073,1086,1090,1072,1090,1100], [1088,1072,1079], [1088,1072,1079,1074,1077],
     [1088,1072,1085,1086], [1088,1072,1085,1100,1096,1077], [1088,1077,1073,1077,1085,1086,1082]]"

definition stopwords_l39 :: "str list" where
  "stopwords_l39 = [[1088,1077,1096,1080,1090,1100], [1088,1086,1089,1089,1080,1103],
     [1088,1091,1082,1072], [1088,1091,1089,1089,1082,1080,1081], [1088,1103,1076],
     [1088,1103,1076,1086,1084], [1089], [1089,32,1082,1077,1084], [1089,1072,1084],
     [1089,1072,1084,1072], [1089,1072,1084,1080], [1089,1072,1084,1080,1084],
     [1089,1072,1084,1080,1084,1080], [1089,1072,1084,1080,1093], [1089,1072,1084,1086],
     [1089,1072,1084,1086,1075,1086], [1089,1072,1084,1086,1081], [1089,1072,1084,1086,1084],
     [1089,1072,1084,1086,1084,1091], [1089,1072,1084,1091]]"

definition stopwords_l40 :: "str list" where
  "stopwords_l40 = [[1089,1072,1084,1099,1081], [1089,1074,1077,1090], [1089,1074,1086,1077],
     [1089,1074,1086,1077,1075,1086], [1089,1074,1086,1077,1081], [1089,1074,1086,1080],
     [1089,1074,1086,1080,1093], [1089,1074,1086,1081], [1089,1074,1086,1102],
     [1089,1076,1077,1083,1072,1090,1100], [1089,1077,1072,1086,1081], [1089,1077,1073,1077],
     [1089,1077,1073,1103], [1089,1077,1075,1086,1076,1085,1103],
     [1089,1077,1076,1100,1084,1086,1081], [1089,1077,1081,1095,1072,1089],
     [1089,1077,1084,1085,1072,1076,1094,1072,1090,1099,1081],
     [1089,1077,1084,1085,1072,1076,1094,1072,1090,1100]]"

definition stopwords_l41 :: "str list" where
  "stopwords_l41 = [[1089,1077,1084,1100], [1089,1080,1076,1077,1090,1100], [1089,1080,1083,1072],
     [1089,1080,1093], [1089,1082,1072,1079,1072,1083], [1089,1082,1072,1079,1072,1083,1072],
     [1089,1082,1072,1079,1072,1090,1100], [1089,1082,1086,1083,1100,1082,1086]]"

definition stopwords :: "str list" where
  "stopwords =
     stopwords_l10 @ stopwords_l11 @ stopwords_l12 @ stopwords_l13 @ stopwords_l14 @
     stopwords_l15 @ stopwords_l16 @ stopwords_l17 @ stopwords_l18 @ stopwords_l19 @
     stopwords_l20 @ stopwords_l21 @ stopwords_l22 @ stopwords_l23 @ stopwords_l24 @
     stopwords_l25 @ stopwords_l26 @ stopwords_l27 @ stopwords_l28 @ stopwords_l29 @
     stopwords_l30 @ stopwords_l31 @ stopwords_l32 @ stopwords_l33 @ stopwords_l34 @
     stopwords_l35 @ stopwords_l36 @ stopwords_l37 @ stopwords_l38 @ stopwords_l39 @
     stopwords_l40 @ stopwords_l41"

definition numStopwords :: nat where
  "numStopwords = length stopwords"

section \<open>Binary search (Go's sort package)\<close>

text \<open>
  \<^verbatim>\<open>sort.SearchStrings(a, x)\<close> is \<^verbatim>\<open>sort.Search(len(a), func(i) { return a[i] >= x })\<close>,
  and \<^verbatim>\<open>sort.Search(n, f)\<close> is the loop
  \<^verbatim>\<open>i, j := 0, n; for i < j { h := int(uint(i+j) >> 1); if !f(h) { i = h + 1 } else { j = h } }; return i\<close>.
  The loop is transcribed as it stands; it does not look at whether the slice is sorted.
  The midpoint \<open>h\<close> satisfies \<open>i \<le> h < j \<le> n\<close>, so \<open>a ! h\<close> is always read in range.
\<close>

function Search_loop :: "(nat \<Rightarrow> bool) \<Rightarrow> nat \<Rightarrow> nat \<Rightarrow> nat" where
  "Search_loop f i j =
     (if i < j
      then (let h = (i + j) div 2
            in if \<not> f h then Search_loop f (h + 1) j else Search_loop f i h)
      else i)"
  by pat_completeness auto
termination
  by (relation "measure (\<lambda>(f, i, j). j - i)") auto

declare Search_loop.simps [simp del]

definition Search :: "nat \<Rightarrow> (nat \<Rightarrow> bool) \<Rightarrow> nat" where
  "Search n f = Search_loop f 0 n"

definition SearchStrings :: "str list \<Rightarrow> str \<Rightarrow> nat" where
  "SearchStrings a x = Search (length a) (\<lambda>i. a ! i \<ge> x)"

section \<open>Stopword test (classifier.go)\<close>

text \<open>
  \<^verbatim>\<open>return index >= numStopwords || stopwords[index] == v\<close>: the right operand of
  \<^verbatim>\<open>||\<close> is evaluated only when \<open>index < numStopwords\<close>, so the slice is indexed in
  range.
\<close>

definition IsStopWord :: "str \<Rightarrow> bool" where
  "IsStopWord v0 =
     (let v = ToLower v0;
          index = SearchStrings stopwords v
      in if index \<ge> numStopwords then True else stopwords ! index = v)"

definition IsNotStopWord :: "str \<Rightarrow> bool" where
  "IsNotStopWord v = (\<not> IsStopWord v)"

section \<open>Tokenizer pipeline (tokenizer.go, tokenizerutil.go)\<close>

text \<open>
  The stages of the pipeline are goroutines joined by buffered channels. Every stage
  reads its input channel in order, writes its output channel in order and closes it
  when its input is closed, so the sequence a consumer receives is a function of the
  sequence the source sends. A channel is modelled as the list of the values sent on it;
  buffer sizes, scheduling and the locks of the classifier are not modelled.

  \<^verbatim>\<open>bufio.ScanWords\<close> splits at the runes for which \<^verbatim>\<open>isSpace\<close> of package bufio
  holds: leading spaces are skipped, a word ends at the next space or at the end of the
  input. The scanner's limit on the size of one token (64 KiB) is not modelled.
\<close>

definition isSpace :: "rune \<Rightarrow> bool" where
  "isSpace r =
     (if r \<le> 255
      then r = 32 \<or> r = 9 \<or> r = 10 \<or> r = 11 \<or> r = 12 \<or> r = 13 \<or> r = 133 \<or> r = 160
      else if 8192 \<le> r \<and> r \<le> 8202 then True
      else r = 5760 \<or> r = 8232 \<or> r = 8233 \<or> r = 8239 \<or> r = 8287 \<or> r = 12288)"

text \<open>\<open>scanWords rest word\<close>: the input still to read and the runes of the word begun.\<close>

fun scanWords :: "str \<Rightarrow> str \<Rightarrow> str list" where
  "scanWords [] word = (if word = [] then [] else [word])"
| "scanWords (r # rest) word =
     (if isSpace r
      then (if word = [] then scanWords rest [] else word # scanWords rest [])
      else scanWords rest (word @ [r]))"

definition ScanWords :: "str \<Rightarrow> str list" where
  "ScanWords data = scanWords data []"

type_synonym Predicate = "str \<Rightarrow> bool"
type_synonym Mapper = "str \<Rightarrow> str"

text \<open>The closure \<^verbatim>\<open>apply\<close> of \<^verbatim>\<open>Filter\<close>: the first filter that fails rejects the text.\<close>

fun apply_filters :: "Predicate list \<Rightarrow> str \<Rightarrow> bool" where
  "apply_filters [] text = True"
| "apply_filters (f # fs) text = (if \<not> f text then False else apply_filters fs text)"

definition Filter_stream :: "str list \<Rightarrow> Predicate list \<Rightarrow> str list" where
  "Filter_stream vs fs = filter (apply_filters fs) vs"

definition Map_stream :: "str list \<Rightarrow> Mapper list \<Rightarrow> str list" where
  "Map_stream vs f = map (\<lambda>v. fold (\<lambda>fn v. fn v) f v) vs"

record StdTokenizer =
  transforms :: "Mapper list"
  filters :: "Predicate list"
  bufferSize :: int

definition NewTokenizer :: StdTokenizer where
  "NewTokenizer = \<lparr>transforms = [ToLower], filters = [IsNotStopWord], bufferSize = 100\<rparr>"

definition pipeline :: "StdTokenizer \<Rightarrow> str list \<Rightarrow> str list" where
  "pipeline t inp = Map_stream (Filter_stream inp (filters t)) (transforms t)"

definition Tokenize :: "StdTokenizer \<Rightarrow> str \<Rightarrow> str list" where
  "Tokenize t data = pipeline t (ScanWords data)"

section \<open>Go maps\<close>

text \<open>
  A Go map with string keys is modelled as an association list with distinct keys.
  Reading a missing key gives the zero value (0, or the nil map, which reads as empty);
  \<^verbatim>\<open>m[k]++\<close> stores the value read plus one; \<^verbatim>\<open>len(m)\<close> is the length of the list.
  The order of the list stands for the order in which a \<^verbatim>\<open>range\<close> over the map
  delivers the keys, which Go leaves unspecified and which may differ from one loop to
  the next.

  The values of the maps are Go \<^verbatim>\<open>int\<close>s that start at 0 and are only incremented.
  The training counters of \<^verbatim>\<open>CategoriesCount\<close> are modelled at their width, as words of
  64 bits read as signed numbers (\<open>sint\<close>): \<^verbatim>\<open>++\<close> wraps from \<open>2^63 - 1\<close> to \<open>- 2^63\<close>.
  That is the \<^verbatim>\<open>int\<close> of the 64-bit ports; on a 32-bit port the width is 32 and every
  bound \<open>2^63\<close> below reads \<open>2^31\<close>. The token counters of \<^verbatim>\<open>MapTokenToCategory\<close> and of
  \<^verbatim>\<open>WordCounts\<close> are modelled as natural numbers, without the wrap-around: a counter of
  \<^verbatim>\<open>WordCounts\<close> stays below the length of the input, and the statements about
  \<^verbatim>\<open>MapTokenToCategory\<close> read its counters in states where none has wrapped. The reading
  of a key and \<^verbatim>\<open>m[k]++\<close> are the same at both number types.
\<close>

type_synonym 'v gomap = "(str \<times> 'v) list"

type_synonym go_int = "64 word"

definition get_int :: "('v::zero) gomap \<Rightarrow> str \<Rightarrow> 'v" where
  "get_int m k = (case map_of m k of None \<Rightarrow> 0 | Some n \<Rightarrow> n)"

definition get_map :: "(nat gomap) gomap \<Rightarrow> str \<Rightarrow> nat gomap" where
  "get_map m k = (case map_of m k of None \<Rightarrow> [] | Some im \<Rightarrow> im)"

definition incr :: "('v::{zero,one,plus}) gomap \<Rightarrow> str \<Rightarrow> 'v gomap" where
  "incr m k = AList.update k (get_int m k + 1) m"

section \<open>Word counts (classifier.go)\<close>

text \<open>
  The three message constants of tokenizerutil.go, and the run-time panic of an integer
  division by zero.
\<close>

datatype error = ErrClassNotFound | ErrNotClassified | ErrEmptyText | PanicDivideByZero

definition WordCounts :: "str \<Rightarrow> nat gomap \<times> error option" where
  "WordCounts data =
     (fold (\<lambda>token wc. incr wc token) (Tokenize NewTokenizer data) [], None)"

section \<open>Classifier (tokenizerutil.go)\<close>

text \<open>
  \<^verbatim>\<open>float64\<close> values are modelled as real numbers: rounding, overflow to infinity and
  underflow to zero are not modelled. The field \<open>tokenizer\<close> holds the function from a
  document to the sequence of tokens its \<^verbatim>\<open>Tokenize\<close> channel delivers.
\<close>

record Classifier =
  MapTokenToCategory :: "(nat gomap) gomap"
  CategoriesCount :: "go_int gomap"
  tokenizer :: "str \<Rightarrow> str list"

definition New :: Classifier where
  "New = \<lparr>MapTokenToCategory = [], CategoriesCount = [], tokenizer = Tokenize NewTokenizer\<rparr>"

definition addToken :: "Classifier \<Rightarrow> str \<Rightarrow> str \<Rightarrow> Classifier" where
  "addToken c t cat =
     (let m = (if map_of (MapTokenToCategory c) t = None
               then AList.update t [] (MapTokenToCategory c)
               else MapTokenToCategory c)
      in c\<lparr>MapTokenToCategory := AList.update t (incr (get_map m t) cat) m\<rparr>)"

definition countTokenInCategory :: "Classifier \<Rightarrow> str \<Rightarrow> str \<Rightarrow> real" where
  "countTokenInCategory c token category =
     (case map_of (MapTokenToCategory c) token of
        Some im \<Rightarrow> real (get_int im category)
      | None \<Rightarrow> 0)"

definition getModelCategories :: "Classifier \<Rightarrow> str list" where
  "getModelCategories c = map fst (CategoriesCount c)"

definition calcTokenWeight :: "Classifier \<Rightarrow> str \<Rightarrow> real" where
  "calcTokenWeight c token =
     (let weight = fold (\<lambda>cat weight. weight + real (get_int (get_map (MapTokenToCategory c) token) cat))
                        (getModelCategories c) 0
      in if weight > 0 then weight else 1 / 1000)"

definition addCategory :: "Classifier \<Rightarrow> str \<Rightarrow> Classifier" where
  "addCategory c cat = c\<lparr>CategoriesCount := incr (CategoriesCount c) cat\<rparr>"

definition categoryTokensCount :: "Classifier \<Rightarrow> str \<Rightarrow> real" where
  "categoryTokensCount c cat =
     (case map_of (CategoriesCount c) cat of Some n \<Rightarrow> real_of_int (sint n) | None \<Rightarrow> 0)"

definition getTokenProb :: "Classifier \<Rightarrow> str \<Rightarrow> str \<Rightarrow> real" where
  "getTokenProb c token category =
     (if categoryTokensCount c category = 0 then 0
      else countTokenInCategory c token category / categoryTokensCount c category)"

text \<open>
  \<^verbatim>\<open>1 / float64(len(c.CategoriesCount))\<close> is a floating-point division: with no category
  it gives an infinity, where the real-number model gives 0. The function is reached
  only through \<^verbatim>\<open>getProb\<close>, which fails before that with no category.
\<close>

definition getWeightedProb :: "Classifier \<Rightarrow> str \<Rightarrow> str \<Rightarrow> real" where
  "getWeightedProb c token cat =
     (let prob = getTokenProb c token cat;
          sum = fold (\<lambda>category sum. sum + countTokenInCategory c token category)
                     (getModelCategories c) 0
      in ((calcTokenWeight c token * 1 / real (length (CategoriesCount c))) + (sum * prob))
         / (1 + sum))"

definition getTextProb :: "Classifier \<Rightarrow> str \<Rightarrow> str \<Rightarrow> real" where
  "getTextProb c data cat =
     fold (\<lambda>t prob. prob * getWeightedProb c t cat) (tokenizer c data) 1"

text \<open>
  \<^verbatim>\<open>categoryProb := float64(1 / len(c.CategoriesCount))\<close>: both operands of the division
  are integers, so it is Go's integer division, converted afterwards; with an empty map it
  panics.
\<close>

definition getProb :: "Classifier \<Rightarrow> str \<Rightarrow> str \<Rightarrow> error + real" where
  "getProb c data category =
     (if length (CategoriesCount c) = 0 then Inl PanicDivideByZero
      else (let categoryProb = real (1 div length (CategoriesCount c));
                docProb = getTextProb c data category
            in Inr (docProb * categoryProb)))"

definition Train :: "Classifier \<Rightarrow> str \<Rightarrow> str \<Rightarrow> Classifier \<times> error option" where
  "Train c trainData category =
     (addCategory (fold (\<lambda>t c. addToken c t category) (tokenizer c trainData) c) category,
      None)"

text \<open>
  The loop of \<^verbatim>\<open>Classify\<close> over the categories \<open>cats\<close>, in the order the \<^verbatim>\<open>range\<close>
  delivers them, with the pair \<open>(guessedClass, maxCoincidenceIndex)\<close> as its state.
\<close>

fun Classify_loop ::
  "Classifier \<Rightarrow> str \<Rightarrow> str list \<Rightarrow> str \<times> real \<Rightarrow> error + (str \<times> real)" where
  "Classify_loop c data [] acc = Inr acc"
| "Classify_loop c data (cat # cats) (guessedClass, maxCoincidenceIndex) =
     (case getProb c data cat of
        Inl e \<Rightarrow> Inl e
      | Inr catCI \<Rightarrow>
          if catCI > maxCoincidenceIndex
          then Classify_loop c data cats (cat, catCI)
          else Classify_loop c data cats (guessedClass, maxCoincidenceIndex))"

definition Classify :: "Classifier \<Rightarrow> str \<Rightarrow> error + (str \<times> real)" where
  "Classify c data =
     (if data = [] then Inl ErrEmptyText
      else (case Classify_loop c data (getModelCategories c) ([], 0) of
              Inl e \<Rightarrow> Inl e
            | Inr (guessedClass, maxCoincidenceIndex) \<Rightarrow>
                if guessedClass = [] then Inl ErrNotClassified
                else Inr (guessedClass, maxCoincidenceIndex)))"

text \<open>
  A sequence of \<^verbatim>\<open>Train\<close> calls, each given as (document, category), and the number
  of calls of a sequence that name a category.
\<close>

definition train_all :: "Classifier \<Rightarrow> (str \<times> str) list \<Rightarrow> Classifier" where
  "train_all c calls = fold (\<lambda>call c. fst (Train c (fst call) (snd call))) calls c"

definition calls_with :: "str \<Rightarrow> (str \<times> str) list \<Rightarrow> nat" where
  "calls_with cat calls = length (filter (\<lambda>call. snd call = cat) calls)"

section \<open>Concrete inputs\<close>

text \<open>
  The words and documents of the examples, as code points. In Latin transliteration:
  \<open>kot\<close> (cat), \<open>sidit\<close> (sits), \<open>na\<close> (on), \<open>okne\<close> (window), \<open>akciya\<close> (share),
  \<open>vyrosla\<close> (rose), \<open>birzhe\<close> (exchange), \<open>i\<close> (and; \<open>w_I\<close> is its capital, U+0418),
  \<open>sobaka\<close> (dog), \<open>yashchik\<close> (box). Of these only \<open>na\<close> and \<open>i\<close> occur in the
  stopword list (lines 30 and 23 of classifier.go).
\<close>

definition w_kot :: str where "w_kot = [1082, 1086, 1090]"
definition w_sidit :: str where "w_sidit = [1089, 1080, 1076, 1080, 1090]"
definition w_na :: str where "w_na = [1085, 1072]"
definition w_okne :: str where "w_okne = [1086, 1082, 1085, 1077]"
definition w_akciya :: str where "w_akciya = [1072, 1082, 1094, 1080, 1103]"
definition w_vyrosla :: str where "w_vyrosla = [1074, 1099, 1088, 1086, 1089, 1083, 1072]"
definition w_birzhe :: str where "w_birzhe = [1073, 1080, 1088, 1078, 1077]"
definition w_i :: str where "w_i = [1080]"
definition w_I :: str where "w_I = [1048]"
definition w_sobaka :: str where "w_sobaka = [1089, 1086, 1073, 1072, 1082, 1072]"
definition w_yashchik :: str where "w_yashchik = [1103, 1097, 1080, 1082]"
definition w_the :: str where "w_the = [116, 104, 101]"
definition w_cat :: str where "w_cat = [99, 97, 116]"

text \<open>The category names \<open>animals\<close> and \<open>finance\<close>, in ASCII.\<close>

definition cat_animals :: str where "cat_animals = [97, 110, 105, 109, 97, 108, 115]"
definition cat_finance :: str where "cat_finance = [102, 105, 110, 97, 110, 99, 101]"

text \<open>The documents; 32 is the space.\<close>

definition doc_animals :: str where
  "doc_animals = w_kot @ [32] @ w_sidit @ [32] @ w_na @ [32] @ w_okne"

definition doc_finance :: str where
  "doc_finance = w_akciya @ [32] @ w_vyrosla @ [32] @ w_na @ [32] @ w_birzhe"

definition doc_query :: str where
  "doc_query = w_kot @ [32] @ w_i @ [32] @ w_akciya"

definition doc_the_i_cat :: str where
  "doc_the_i_cat = w_the @ [32] @ w_i @ [32] @ w_cat"

definition doc_I_sobaka :: str where
  "doc_I_sobaka = w_I @ [32] @ w_sobaka"

text \<open>
  The classifier after \<^verbatim>\<open>Train(doc_animals, "animals")\<close> and
  \<^verbatim>\<open>Train(doc_finance, "finance")\<close>, the one after \<^verbatim>\<open>Train("kot", "animals")\<close> and
  \<^verbatim>\<open>Train("akciya", "finance")\<close>, and the one after \<^verbatim>\<open>Train("kot", "")\<close>.
\<close>

definition trained_two :: Classifier where
  "trained_two = train_all New [(doc_animals, cat_animals), (doc_finance, cat_finance)]"

definition trained_words :: Classifier where
  "trained_words = train_all New [(w_kot, cat_animals), (w_akciya, cat_finance)]"

definition trained_empty_label :: Classifier where
  "trained_empty_label = train_all New [(w_kot, [])]"

text \<open>
  Two sequences of calls: the two documents followed by the empty document for animals,
  and \<open>2^63\<close> calls \<^verbatim>\<open>Train("", "animals")\<close>.
\<close>

definition calls_three :: "(str \<times> str) list" where
  "calls_three = [(doc_animals, cat_animals), (doc_finance, cat_finance), ([], cat_animals)]"

definition calls_many :: "(str \<times> str) list" where
  "calls_many = replicate (2 ^ 63) ([], cat_animals)"

section \<open>Facts about the binary search\<close>

text \<open>
  The loop reads its predicate only at indices from \<open>i\<close> up to \<open>j - 1\<close>, and its result
  lies between \<open>i\<close> and \<open>j\<close>; so \<^verbatim>\<open>SearchStrings\<close> reads the slice in range and returns
  at most its length.
\<close>

lemma Search_loop_reads:
  assumes "\<And>h. i \<le> h \<Longrightarrow> h < j \<Longrightarrow> f h = g h"
  shows "Search_loop f i j = Search_loop g i j"
  using assms
proof (induction f i j rule: Search_loop.induct)
  case (1 f i j)
  show ?case
  proof (cases "i < j")
    case False
    then show ?thesis
      by (simp add: Search_loop.simps)
  next
    case True
    define h where "h = (i + j) div 2"
    from True have hb: "i \<le> h" "h < j"
      by (simp_all add: h_def)
    from hb "1.prems" have fg: "f h = g h"
      by blast
    have unfold: "Search_loop f i j = (if \<not> f h then Search_loop f (h + 1) j else Search_loop f i h)"
      "Search_loop g i j = (if \<not> g h then Search_loop g (h + 1) j else Search_loop g i h)"
      using True Search_loop.simps [of f i j] Search_loop.simps [of g i j]
      by (simp_all add: Let_def h_def)
    show ?thesis
    proof (cases "f h")
      case True
      have "Search_loop f i h = Search_loop g i h"
        using \<open>i < j\<close> h_def True hb "1.prems"
        by (intro "1.IH"(2)) simp_all
      with True fg unfold show ?thesis
        by simp
    next
      case False
      have "Search_loop f (h + 1) j = Search_loop g (h + 1) j"
        using \<open>i < j\<close> h_def False hb "1.prems"
        by (intro "1.IH"(1)) simp_all
      with False fg unfold show ?thesis
        by simp
    qed
  qed
qed

lemma Search_loop_range:
  assumes "i \<le> j"
  shows "i \<le> Search_loop f i j \<and> Search_loop f i j \<le> j"
  using assms
proof (induction f i j rule: Search_loop.induct)
  case (1 f i j)
  show ?case
  proof (cases "i < j")
    case False
    with "1.prems" show ?thesis
      by (simp add: Search_loop.simps)
  next
    case True
    define h where "h = (i + j) div 2"
    from True have hb: "i \<le> h" "h < j"
      by (simp_all add: h_def)
    have unfold: "Search_loop f i j = (if \<not> f h then Search_loop f (h + 1) j else Search_loop f i h)"
      using True Search_loop.simps [of f i j]
      by (simp add: Let_def h_def)
    show ?thesis
    proof (cases "f h")
      case True
      have "i \<le> Search_loop f i h \<and> Search_loop f i h \<le> h"
        using \<open>i < j\<close> h_def True hb
        by (intro "1.IH"(2)) simp_all
      with True unfold hb show ?thesis
        by simp
    next
      case False
      have "h + 1 \<le> Search_loop f (h + 1) j \<and> Search_loop f (h + 1) j \<le> j"
        using \<open>i < j\<close> h_def False hb
        by (intro "1.IH"(1)) simp_all
      with False unfold hb show ?thesis
        by simp
    qed
  qed
qed

lemma SearchStrings_le_length: "SearchStrings a x \<le> length a"
  using Search_loop_range [of 0 "length a" "\<lambda>i. a ! i \<ge> x"]
  by (simp add: SearchStrings_def Search_def)

lemma IsStopWord_past_the_end:
  assumes "SearchStrings stopwords (ToLower v) \<ge> numStopwords"
  shows "IsStopWord v"
  using assms by (simp add: IsStopWord_def)

section \<open>The search on the embedded list\<close>

text \<open>
  The lengths of the source lines of the list, the entries the searches below read, and
  the positions the loop returns for the words of the examples.
\<close>

lemma stopwords_lengths:
  "length stopwords_l10 = 19"
  "length stopwords_l11 = 16"
  "length stopwords_l12 = 19"
  "length stopwords_l13 = 17"
  "length stopwords_l14 = 16"
  "length stopwords_l15 = 18"
  "length stopwords_l16 = 18"
  "length stopwords_l17 = 16"
  "length stopwords_l18 = 15"
  "length stopwords_l19 = 17"
  "length stopwords_l20 = 14"
  "length stopwords_l21 = 17"
  "length stopwords_l22 = 22"
  "length stopwords_l23 = 20"
  "length stopwords_l24 = 19"
  "length stopwords_l25 = 17"
  "length stopwords_l26 = 17"
  "length stopwords_l27 = 20"
  "length stopwords_l28 = 18"
  "length stopwords_l29 = 15"
  "length stopwords_l30 = 20"
  "length stopwords_l31 = 19"
  "length stopwords_l32 = 18"
  "length stopwords_l33 = 19"
  "length stopwords_l34 = 18"
  "length stopwords_l35 = 19"
  "length stopwords_l36 = 19"
  "length stopwords_l37 = 16"
  "length stopwords_l38 = 17"
  "length stopwords_l39 = 20"
  "length stopwords_l40 = 18"
  "length stopwords_l41 = 8"
  by (simp_all add: stopwords_l10_def stopwords_l11_def stopwords_l12_def stopwords_l13_def stopwords_l14_def stopwords_l15_def stopwords_l16_def stopwords_l17_def stopwords_l18_def stopwords_l19_def stopwords_l20_def stopwords_l21_def stopwords_l22_def stopwords_l23_def stopwords_l24_def stopwords_l25_def stopwords_l26_def stopwords_l27_def stopwords_l28_def stopwords_l29_def stopwords_l30_def stopwords_l31_def stopwords_l32_def stopwords_l33_def stopwords_l34_def stopwords_l35_def stopwords_l36_def stopwords_l37_def stopwords_l38_def stopwords_l39_def stopwords_l40_def stopwords_l41_def)

lemma stopwords_nth:
  "stopwords ! 0 = [1084,1085,1077]"
  "stopwords ! 1 = [1079,1076,1088,1072,1074,1089,1090,1074]"
  "stopwords ! 2 = [99]"
  "stopwords ! 3 = [1072]"
  "stopwords ! 4 = [1072,1083,1083,1086]"
  "stopwords ! 6 = [1073,1077,1083,1099,1081]"
  "stopwords ! 7 = [1073,1083,1080,1079,1082,1086]"
  "stopwords ! 8 = [1073,1086,1083,1077,1077]"
  "stopwords ! 17 = [1073,1091,1076,1091,1090]"
  "stopwords ! 35 = [1073,1099]"
  "stopwords ! 70 = [1074,1085,1080,1079]"
  "stopwords ! 79 = [1074,1086,1089,1077,1084,1085,1072,1076,1094,1072,1090,1099,1081]"
  "stopwords ! 84 = [1074,1090,1086,1088,1086,1081]"
  "stopwords ! 86 = [1074,1099,1081,1090,1080]"
  "stopwords ! 87 = [1075]"
  "stopwords ! 88 = [1075,1076,1077]"
  "stopwords ! 105 = [1076,1072,1083,1077,1082,1086]"
  "stopwords ! 106 = [1090,1088,1080]"
  "stopwords ! 107 = [1090,1088,1080,1085,1072,1076,1094,1072,1090,1099,1081]"
  "stopwords ! 108 = [1090,1088,1080,1085,1072,1076,1094,1072,1090,1100]"
  "stopwords ! 110 = [1090,1091,1076,1072]"
  "stopwords ! 114 = [1091]"
  "stopwords ! 123 = [1093,1086,1090,1077,1083,32,1073,1099]"
  "stopwords ! 140 = [1095,1077,1090,1099,1088,1085,1072,1076,1094,1072,1090,1100]"
  "stopwords ! 237 = [1080]"
  "stopwords ! 280 = [1083,1077,1078,1072,1090,1100]"
  "stopwords ! 351 = [1084,1086,1078,1077,1090]"
  "stopwords ! 360 = [1084,1086,1103]"
  "stopwords ! 362 = [1084,1099]"
  "stopwords ! 363 = [1085,1072]"
  "stopwords ! 365 = [1085,1072,1076]"
  "stopwords ! 369 = [1085,1072,1081,1090,1080]"
  "stopwords ! 386 = [1085,1077,1081]"
  "stopwords ! 421 = [1086,1073,1072]"
  "stopwords ! 430 = [1086,1082,1072,1079,1072,1090,1100,1089,1103]"
  "stopwords ! 431 = [1086,1082,1085,1086]"
  "stopwords ! 432 = [1086,1082,1086,1083,1086]"
  "stopwords ! 433 = [1086,1085]"
  "stopwords ! 435 = [1086,1085,1080]"
  "stopwords ! 439 = [1086,1089,1090,1072,1090,1100,1089,1103]"
  "stopwords ! 456 = [1087,1086,1079,1078,1077]"
  "stopwords ! 491 = [1087,1086,1089,1088,1077,1076,1080]"
  "stopwords ! 526 = [1089,1072,1084,1080,1084]"
  "stopwords ! 544 = [1089,1076,1077,1083,1072,1090,1100]"
  "stopwords ! 553 = [1089,1077,1084,1100]"
  "stopwords ! 554 = [1089,1080,1076,1077,1090,1100]"
  "stopwords ! 555 = [1089,1080,1083,1072]"
  "stopwords ! 557 = [1089,1082,1072,1079,1072,1083]"
  "stopwords ! 559 = [1089,1082,1072,1079,1072,1090,1100]"
  "stopwords ! 560 = [1089,1082,1086,1083,1100,1082,1086]"
  unfolding stopwords_def
  by (simp_all add: nth_append stopwords_lengths)
     (simp_all add: stopwords_l10_def stopwords_l11_def stopwords_l12_def stopwords_l13_def stopwords_l14_def stopwords_l15_def stopwords_l16_def stopwords_l17_def stopwords_l18_def stopwords_l19_def stopwords_l20_def stopwords_l21_def stopwords_l22_def stopwords_l23_def stopwords_l24_def stopwords_l25_def stopwords_l26_def stopwords_l27_def stopwords_l28_def stopwords_l29_def stopwords_l30_def stopwords_l31_def stopwords_l32_def stopwords_l33_def stopwords_l34_def stopwords_l35_def stopwords_l36_def stopwords_l37_def stopwords_l38_def stopwords_l39_def stopwords_l40_def stopwords_l41_def)

lemma length_stopwords: "length stopwords = 561"
  by (simp add: stopwords_def stopwords_lengths)

lemma SearchStrings_kot: "SearchStrings stopwords [1082,1086,1090] = 106"
  by (simp add: SearchStrings_def Search_def Search_loop.simps length_stopwords stopwords_nth)

lemma SearchStrings_sidit: "SearchStrings stopwords [1089,1080,1076,1080,1090] = 555"
  by (simp add: SearchStrings_def Search_def Search_loop.simps length_stopwords stopwords_nth)

lemma SearchStrings_na: "SearchStrings stopwords [1085,1072] = 363"
  by (simp add: SearchStrings_def Search_def Search_loop.simps length_stopwords stopwords_nth)

lemma SearchStrings_okne: "SearchStrings stopwords [1086,1082,1085,1077] = 431"
  by (simp add: SearchStrings_def Search_def Search_loop.simps length_stopwords stopwords_nth)

lemma SearchStrings_akciya: "SearchStrings stopwords [1072,1082,1094,1080,1103] = 4"
  by (simp add: SearchStrings_def Search_def Search_loop.simps length_stopwords stopwords_nth)

lemma SearchStrings_vyrosla: "SearchStrings stopwords [1074,1099,1088,1086,1089,1083,1072] = 87"
  by (simp add: SearchStrings_def Search_def Search_loop.simps length_stopwords stopwords_nth)

lemma SearchStrings_birzhe: "SearchStrings stopwords [1073,1080,1088,1078,1077] = 7"
  by (simp add: SearchStrings_def Search_def Search_loop.simps length_stopwords stopwords_nth)

lemma SearchStrings_i: "SearchStrings stopwords [1080] = 106"
  by (simp add: SearchStrings_def Search_def Search_loop.simps length_stopwords stopwords_nth)

lemma SearchStrings_the: "SearchStrings stopwords [116,104,101] = 3"
  by (simp add: SearchStrings_def Search_def Search_loop.simps length_stopwords stopwords_nth)

lemma SearchStrings_cat: "SearchStrings stopwords [99,97,116] = 3"
  by (simp add: SearchStrings_def Search_def Search_loop.simps length_stopwords stopwords_nth)

lemma SearchStrings_sobaka: "SearchStrings stopwords [1089,1086,1073,1072,1082,1072] = 561"
  by (simp add: SearchStrings_def Search_def Search_loop.simps length_stopwords stopwords_nth)

lemma SearchStrings_yashchik: "SearchStrings stopwords [1103,1097,1080,1082] = 561"
  by (simp add: SearchStrings_def Search_def Search_loop.simps length_stopwords stopwords_nth)

lemmas word_defs = w_kot_def w_sidit_def w_na_def w_okne_def w_akciya_def w_vyrosla_def
  w_birzhe_def w_i_def w_I_def w_sobaka_def w_the_def w_cat_def

lemma IsStopWord_words:
  "IsStopWord w_kot = False" "IsStopWord w_sidit = False" "IsStopWord w_na = True"
  "IsStopWord w_okne = False" "IsStopWord w_akciya = False" "IsStopWord w_vyrosla = False"
  "IsStopWord w_birzhe = False" "IsStopWord w_i = False" "IsStopWord w_I = False"
  "IsStopWord w_the = False" "IsStopWord w_cat = False" "IsStopWord w_sobaka = True"
  by (simp_all add: IsStopWord_def word_defs ToLower_def ToLower_rune_def numStopwords_def
      length_stopwords stopwords_nth SearchStrings_kot SearchStrings_sidit SearchStrings_na
      SearchStrings_okne SearchStrings_akciya SearchStrings_vyrosla SearchStrings_birzhe
      SearchStrings_i SearchStrings_the SearchStrings_cat SearchStrings_sobaka)

lemma ToLower_words:
  "ToLower w_kot = w_kot" "ToLower w_sidit = w_sidit" "ToLower w_okne = w_okne"
  "ToLower w_akciya = w_akciya" "ToLower w_vyrosla = w_vyrosla" "ToLower w_birzhe = w_birzhe"
  "ToLower w_i = w_i" "ToLower w_I = w_i" "ToLower w_the = w_the" "ToLower w_cat = w_cat"
  by (simp_all add: word_defs ToLower_def ToLower_rune_def)

lemma ScanWords_docs:
  "ScanWords doc_animals = [w_kot, w_sidit, w_na, w_okne]"
  "ScanWords doc_finance = [w_akciya, w_vyrosla, w_na, w_birzhe]"
  "ScanWords doc_query = [w_kot, w_i, w_akciya]"
  "ScanWords doc_the_i_cat = [w_the, w_i, w_cat]"
  "ScanWords doc_I_sobaka = [w_I, w_sobaka]"
  "ScanWords w_kot = [w_kot]"
  "ScanWords w_akciya = [w_akciya]"
  by (simp_all add: ScanWords_def doc_animals_def doc_finance_def doc_query_def
      doc_the_i_cat_def doc_I_sobaka_def word_defs isSpace_def)

lemma Tokenize_docs:
  "Tokenize NewTokenizer doc_animals = [w_kot, w_sidit, w_okne]"
  "Tokenize NewTokenizer doc_finance = [w_akciya, w_vyrosla, w_birzhe]"
  "Tokenize NewTokenizer doc_query = [w_kot, w_i, w_akciya]"
  "Tokenize NewTokenizer doc_the_i_cat = [w_the, w_i, w_cat]"
  "Tokenize NewTokenizer doc_I_sobaka = [w_i]"
  "Tokenize NewTokenizer w_kot = [w_kot]"
  "Tokenize NewTokenizer w_akciya = [w_akciya]"
  by (simp_all add: Tokenize_def pipeline_def NewTokenizer_def Filter_stream_def Map_stream_def
      ScanWords_docs IsNotStopWord_def IsStopWord_words ToLower_words)

section \<open>Training\<close>

lemma get_int_incr: "get_int (incr m k) k' = (if k' = k then get_int m k + 1 else get_int m k')"
  by (simp add: get_int_def incr_def update_conv')

lemma distinct_incr: "distinct (map fst (incr m k)) = distinct (map fst m)"
  by (auto simp: incr_def update_keys)

lemma CategoriesCount_addToken: "CategoriesCount (addToken c t cat) = CategoriesCount c"
  by (simp add: addToken_def Let_def)

lemma tokenizer_addToken: "tokenizer (addToken c t cat) = tokenizer c"
  by (simp add: addToken_def Let_def)

lemma CategoriesCount_addTokens:
  "CategoriesCount (fold (\<lambda>t c. addToken c t cat) ts c) = CategoriesCount c"
  by (induction ts arbitrary: c) (simp_all add: CategoriesCount_addToken)

lemma tokenizer_addTokens:
  "tokenizer (fold (\<lambda>t c. addToken c t cat) ts c) = tokenizer c"
  by (induction ts arbitrary: c) (simp_all add: tokenizer_addToken)

lemma CategoriesCount_Train:
  "CategoriesCount (fst (Train c d cat)) = incr (CategoriesCount c) cat"
  by (simp add: Train_def addCategory_def CategoriesCount_addTokens)

lemma tokenizer_Train: "tokenizer (fst (Train c d cat)) = tokenizer c"
  by (simp add: Train_def addCategory_def tokenizer_addTokens)

lemma tokenizer_train_all: "tokenizer (train_all c calls) = tokenizer c"
  unfolding train_all_def
  by (induction calls arbitrary: c) (simp_all add: tokenizer_Train)

lemma count_train_all:
  "get_int (CategoriesCount (train_all c calls)) cat =
     get_int (CategoriesCount c) cat + word_of_nat (calls_with cat calls)"
  unfolding train_all_def calls_with_def
proof (induction calls arbitrary: c)
  case Nil
  show ?case by simp
next
  case (Cons call calls)
  show ?case
    by (simp add: Cons.IH CategoriesCount_Train get_int_incr)
qed

lemma count_from_New:
  "get_int (CategoriesCount (train_all New calls)) cat = word_of_nat (calls_with cat calls)"
proof -
  have "get_int (CategoriesCount New) cat = 0"
    by (simp add: New_def get_int_def)
  then show ?thesis
    by (simp add: count_train_all)
qed

lemma sint_count_in_range:
  assumes "n < 2 ^ 63"
  shows "sint (word_of_nat n :: go_int) = int n"
proof -
  from assms have "int n < 2 ^ 63"
    by (metis of_nat_less_iff of_nat_numeral of_nat_power)
  then have "signed_take_bit 63 (int n) = int n"
    by (intro signed_take_bit_int_eq_self) simp_all
  then show ?thesis
    by (simp add: signed_of_nat)
qed

lemma sint_count_wrapped: "sint (word_of_nat (2 ^ 63) :: go_int) = - (2 ^ 63)"
  by (simp add: signed_of_nat signed_take_bit_eq_take_bit_shift)

lemma calls_with_replicate: "calls_with cat (replicate n (d, cat)) = n"
  by (induction n) (simp_all add: calls_with_def)

lemma Tokenize_empty: "Tokenize NewTokenizer [] = []"
  by (simp add: Tokenize_def pipeline_def ScanWords_def Filter_stream_def Map_stream_def)

lemma Train_empty_document:
  assumes "tokenizer c [] = []"
  shows "MapTokenToCategory (fst (Train c [] cat)) = MapTokenToCategory c"
  using assms by (simp add: Train_def addCategory_def)

lemma Train_empty_from_New:
  "MapTokenToCategory (fst (Train (train_all New calls) [] cat))
     = MapTokenToCategory (train_all New calls)"
proof -
  have "tokenizer (train_all New calls) [] = []"
    by (simp add: tokenizer_train_all New_def Tokenize_empty)
  then show ?thesis
    by (rule Train_empty_document)
qed

text \<open>
  Claim C7 (from a fresh classifier, after any finite sequence of \<^verbatim>\<open>Train\<close> calls the
  count stored for a category is the number of calls made with that category), at the
  input where it fails: after \<open>2^63\<close> calls \<^verbatim>\<open>Train("", "animals")\<close> the count stored
  for animals is \<open>- 2^63\<close>, the counter having wrapped at the last call.
\<close>

theorem training_count_wraps:
  "calls_with cat_animals calls_many = 2 ^ 63
   \<and> sint (get_int (CategoriesCount (train_all New calls_many)) cat_animals) = - (2 ^ 63)
   \<and> sint (get_int (CategoriesCount (train_all New calls_many)) cat_animals)
       \<noteq> int (calls_with cat_animals calls_many)"
proof -
  have n: "calls_with cat_animals calls_many = 2 ^ 63"
    unfolding calls_many_def by (rule calls_with_replicate)
  have "get_int (CategoriesCount (train_all New calls_many)) cat_animals
      = (word_of_nat (2 ^ 63) :: go_int)"
    by (simp only: count_from_New n)
  then have v: "sint (get_int (CategoriesCount (train_all New calls_many)) cat_animals) = - (2 ^ 63)"
    by (simp only: sint_count_wrapped)
  have "(- (2 ^ 63) :: int) \<noteq> int (2 ^ 63)"
    by simp
  with n v show ?thesis
    by (simp only: simp_thms)
qed

text \<open>
  Claim C7, as amended. From a fresh classifier, after a finite sequence of \<^verbatim>\<open>Train\<close>
  calls of which fewer than \<open>2^63\<close> name a category, the count stored for that category
  is the number of those calls; a further \<^verbatim>\<open>Train\<close> call with the empty document leaves
  the token records as they are and, when the calls naming the category are still fewer
  than \<open>2^63\<close> with it, adds exactly 1 to the count.
\<close>

theorem training_count:
  assumes "calls_with cat calls < 2 ^ 63"
  shows "sint (get_int (CategoriesCount (train_all New calls)) cat) = int (calls_with cat calls)
   \<and> (calls_with cat calls + 1 < 2 ^ 63 \<longrightarrow>
        sint (get_int (CategoriesCount (fst (Train (train_all New calls) [] cat))) cat)
          = sint (get_int (CategoriesCount (train_all New calls)) cat) + 1)
   \<and> MapTokenToCategory (fst (Train (train_all New calls) [] cat))
       = MapTokenToCategory (train_all New calls)"
proof -
  have counts: "sint (get_int (CategoriesCount (train_all New calls)) cat)
      = int (calls_with cat calls)"
    using assms by (simp add: count_from_New sint_count_in_range)
  have step: "sint (get_int (CategoriesCount (fst (Train (train_all New calls) [] cat))) cat)
      = sint (get_int (CategoriesCount (train_all New calls)) cat) + 1"
    if more: "calls_with cat calls + 1 < 2 ^ 63"
  proof -
    have "get_int (CategoriesCount (fst (Train (train_all New calls) [] cat))) cat
        = (word_of_nat (calls_with cat calls + 1) :: go_int)"
      by (simp add: CategoriesCount_Train get_int_incr count_from_New)
    then have "sint (get_int (CategoriesCount (fst (Train (train_all New calls) [] cat))) cat)
        = int (calls_with cat calls + 1)"
      using more by (simp only: sint_count_in_range)
    with counts show ?thesis
      by simp
  qed
  from counts step Train_empty_from_New show ?thesis
    by blast
qed

text \<open>
  An instance: the two documents followed by the empty document for animals. Two calls
  name animals; a further call with the empty document makes the count 3.
\<close>

theorem training_count_witness:
  "calls_with cat_animals calls_three < 2 ^ 63
   \<and> calls_with cat_animals calls_three + 1 < 2 ^ 63
   \<and> sint (get_int (CategoriesCount (train_all New calls_three)) cat_animals) = 2
   \<and> sint (get_int (CategoriesCount (fst (Train (train_all New calls_three) [] cat_animals)))
        cat_animals) = 3
   \<and> MapTokenToCategory (fst (Train (train_all New calls_three) [] cat_animals))
       = MapTokenToCategory (train_all New calls_three)"
proof -
  have n: "calls_with cat_animals calls_three = 2"
    by (simp add: calls_with_def calls_three_def cat_animals_def cat_finance_def)
  have h: "calls_with cat_animals calls_three < 2 ^ 63"
    by (simp add: n)
  have more: "calls_with cat_animals calls_three + 1 < 2 ^ 63"
    by (simp add: n)
  from training_count [OF h] more n h show ?thesis
    by simp
qed

section \<open>Probabilities\<close>







lemma name_neq:
  "cat_animals \<noteq> cat_finance" "cat_finance \<noteq> cat_animals"
  "w_kot \<noteq> w_akciya" "w_akciya \<noteq> w_kot" "w_kot \<noteq> []" "cat_animals \<noteq> []"
  by (simp_all add: word_defs cat_animals_def cat_finance_def)

lemma trained_words_state:
  "MapTokenToCategory trained_words = [(w_kot, [(cat_animals, 1)]), (w_akciya, [(cat_finance, 1)])]"
  "CategoriesCount trained_words = [(cat_animals, 1), (cat_finance, 1)]"
  "tokenizer trained_words = Tokenize NewTokenizer"
  by (simp_all add: trained_words_def train_all_def Train_def New_def Tokenize_docs addToken_def
      addCategory_def incr_def get_int_def get_map_def name_neq)

lemma trained_empty_label_state:
  "MapTokenToCategory trained_empty_label = [(w_kot, [([], 1)])]"
  "CategoriesCount trained_empty_label = [([], 1)]"
  "tokenizer trained_empty_label = Tokenize NewTokenizer"
  by (simp_all add: trained_empty_label_def train_all_def Train_def New_def Tokenize_docs
      addToken_def addCategory_def incr_def get_int_def get_map_def)

lemma trained_two_categories:
  "CategoriesCount trained_two = [(cat_animals, 1), (cat_finance, 1)]"
  by (simp add: trained_two_def train_all_def CategoriesCount_Train New_def incr_def
      get_int_def name_neq)

lemma getWeightedProb_trained_words:
  "getWeightedProb trained_words w_kot cat_animals = 3 / 4"
  by (simp add: getWeightedProb_def calcTokenWeight_def getTokenProb_def categoryTokensCount_def
      countTokenInCategory_def getModelCategories_def get_int_def get_map_def
      trained_words_state name_neq)

lemma getWeightedProb_trained_empty_label:
  "getWeightedProb trained_empty_label w_kot [] = 1"
  by (simp add: getWeightedProb_def calcTokenWeight_def getTokenProb_def categoryTokensCount_def
      countTokenInCategory_def getModelCategories_def get_int_def get_map_def
      trained_empty_label_state name_neq)



text \<open>
  Claim C9. When the model has exactly one trained category \<open>X\<close>, the score of every text
  for \<open>X\<close> is its text probability for \<open>X\<close>: the prior \<open>1 div 1\<close> is 1.
\<close>

theorem single_category_score:
  assumes "getModelCategories c = [X]"
  shows "getProb c text X = Inr (getTextProb c text X)"
proof -
  from assms have "length (map fst (CategoriesCount c)) = length [X]"
    by (simp only: getModelCategories_def)
  then have "length (CategoriesCount c) = 1"
    by simp
  then show ?thesis by (simp add: getProb_def)
qed

text \<open>
  An instance: the classifier whose only category is the empty label, and the text
  \<open>kot\<close>.
\<close>

theorem single_category_score_witness:
  "getModelCategories trained_empty_label = [[]]
   \<and> getProb trained_empty_label w_kot [] = Inr (getTextProb trained_empty_label w_kot [])"
proof -
  have h: "getModelCategories trained_empty_label = [[]]"
    by (simp add: getModelCategories_def trained_empty_label_state)
  from h single_category_score [OF h, of w_kot] show ?thesis
    by simp
qed

text \<open>
  Claim C1 (the score of a category is the text probability times the prior \<open>1 / n\<close>,
  computed with real division). In the classifier trained with \<open>kot\<close> for animals and
  \<open>akciya\<close> for finance, \<^verbatim>\<open>getProb\<close> gives the document \<open>kot\<close> the score 0 for
  animals, while its text probability times \<open>1 / 2\<close> is \<open>3 / 8\<close>: the prior is the
  integer quotient \<open>1 div 2 = 0\<close>.
\<close>

theorem score_integer_division:
  "getProb trained_words w_kot cat_animals = Inr 0
   \<and> getTextProb trained_words w_kot cat_animals
       * (1 / real (length (CategoriesCount trained_words))) = 3 / 8"
proof -
  have "getTextProb trained_words w_kot cat_animals = 3 / 4"
    by (simp add: getTextProb_def trained_words_state Tokenize_docs getWeightedProb_trained_words)
  moreover have "length (CategoriesCount trained_words) = 2"
    by (simp add: trained_words_state)
  ultimately show ?thesis
    by (simp add: getProb_def)
qed

section \<open>Classification\<close>

text \<open>
  With the empty document \<^verbatim>\<open>Classify\<close> fails with \<^verbatim>\<open>ErrEmptyText\<close>; with no trained
  category it fails with \<^verbatim>\<open>ErrNotClassified\<close>. The loop returns the first category, in
  the order of the \<^verbatim>\<open>range\<close>, whose score is the greatest, when that score is above
  0. When no category has the empty label, the call fails with \<^verbatim>\<open>ErrNotClassified\<close>
  exactly when no score is above 0, whatever the order of the \<^verbatim>\<open>range\<close>. From two
  categories on every score is 0.
\<close>

lemma Classify_empty_document: "Classify c [] = Inl ErrEmptyText"
  by (simp add: Classify_def)

lemma Classify_untrained:
  assumes "CategoriesCount c = []" and "data \<noteq> []"
  shows "Classify c data = Inl ErrNotClassified"
  using assms by (simp add: Classify_def getModelCategories_def)

lemma Classify_loop_result:
  assumes "\<And>cat. getProb c data cat = Inr (s cat)"
  shows "\<exists>g' m'. Classify_loop c data cats (g, m) = Inr (g', m')
           \<and> (if \<forall>cat \<in> set cats. s cat \<le> m then (g', m') = (g, m)
              else g' \<in> set cats \<and> m' = s g' \<and> m < m')"
proof (induction cats arbitrary: g m)
  case Nil
  show ?case by simp
next
  case (Cons cat cats)
  show ?case
  proof (cases "s cat > m")
    case True
    from Cons.IH [of cat "s cat"] obtain g' m' where
      r: "Classify_loop c data cats (cat, s cat) = Inr (g', m')"
      and i: "if \<forall>x \<in> set cats. s x \<le> s cat then (g', m') = (cat, s cat)
              else g' \<in> set cats \<and> m' = s g' \<and> s cat < m'"
      by blast
    from True r have "Classify_loop c data (cat # cats) (g, m) = Inr (g', m')"
      by (simp add: assms)
    moreover from True i have "g' \<in> set (cat # cats) \<and> m' = s g' \<and> m < m'"
      by (auto split: if_splits)
    moreover from True have "\<not> (\<forall>x \<in> set (cat # cats). s x \<le> m)"
      by auto
    ultimately show ?thesis
      by simp
  next
    case False
    from Cons.IH [of g m] obtain g' m' where
      r: "Classify_loop c data cats (g, m) = Inr (g', m')"
      and i: "if \<forall>x \<in> set cats. s x \<le> m then (g', m') = (g, m)
              else g' \<in> set cats \<and> m' = s g' \<and> m < m'"
      by blast
    from False r have "Classify_loop c data (cat # cats) (g, m) = Inr (g', m')"
      by (simp add: assms)
    moreover from False i have
      "if \<forall>x \<in> set (cat # cats). s x \<le> m then (g', m') = (g, m)
       else g' \<in> set (cat # cats) \<and> m' = s g' \<and> m < m'"
      by (auto split: if_splits)
    ultimately show ?thesis
      by blast
  qed
qed

lemma Classify_NoMatch_nonempty_labels:
  assumes "data \<noteq> []" and "CategoriesCount c \<noteq> []" and "[] \<notin> set (getModelCategories c)"
  shows "Classify c data = Inl ErrNotClassified
     \<longleftrightarrow> (\<forall>cat \<in> set (getModelCategories c). \<forall>x. getProb c data cat = Inr x \<longrightarrow> x \<le> 0)"
proof -
  define s where "s cat = getTextProb c data cat * real (1 div length (CategoriesCount c))" for cat
  have p: "getProb c data cat = Inr (s cat)" for cat
    using assms(2) by (simp add: getProb_def s_def)
  from Classify_loop_result [of c data s "getModelCategories c" "[]" 0, OF p]
  obtain g' m' where
    r: "Classify_loop c data (getModelCategories c) ([], 0) = Inr (g', m')"
    and i: "if \<forall>cat \<in> set (getModelCategories c). s cat \<le> 0 then (g', m') = ([], 0)
            else g' \<in> set (getModelCategories c) \<and> m' = s g' \<and> 0 < m'"
    by blast
  from assms(1) r have "Classify c data = Inl ErrNotClassified \<longleftrightarrow> g' = []"
    by (simp add: Classify_def)
  also from i assms(3) have "g' = [] \<longleftrightarrow> (\<forall>cat \<in> set (getModelCategories c). s cat \<le> 0)"
    by (auto split: if_splits)
  finally show ?thesis
    by (simp add: p)
qed

lemma getProb_several_categories:
  assumes "2 \<le> length (CategoriesCount c)"
  shows "getProb c data cat = Inr 0"
  using assms by (auto simp: getProb_def)

lemma Classify_loop_all_zero:
  assumes "\<And>cat. getProb c data cat = Inr 0"
  shows "Classify_loop c data cats ([], 0) = Inr ([], 0)"
  by (induction cats) (simp_all add: assms)

lemma Classify_several_categories:
  assumes "2 \<le> length (CategoriesCount c)" and "data \<noteq> []"
  shows "Classify c data = Inl ErrNotClassified"
proof -
  have "Classify_loop c data (getModelCategories c) ([], 0) = Inr ([], 0)"
    by (rule Classify_loop_all_zero) (rule getProb_several_categories [OF assms(1)])
  with assms(2) show ?thesis
    by (simp add: Classify_def)
qed

text \<open>
  Claim C2 (after training animals and finance with the two documents, classifying the
  query succeeds with one of the two labels and a positive confidence). The call fails
  with \<^verbatim>\<open>ErrNotClassified\<close>: with two categories every score is 0.
\<close>

theorem end_to_end_not_classified:
  "Classify trained_two doc_query = Inl ErrNotClassified"
proof -
  have "2 \<le> length (CategoriesCount trained_two)"
    by (simp add: trained_two_categories)
  moreover have "doc_query \<noteq> []"
    by (simp add: doc_query_def word_defs)
  ultimately show ?thesis
    by (rule Classify_several_categories)
qed

text \<open>
  Claim C6 (for a non-empty document, \<^verbatim>\<open>Classify\<close> fails with the no-match error
  exactly when no category scores above 0). In the classifier trained with \<open>kot\<close> for the
  empty label, the document \<open>kot\<close> scores 1 for that label, and \<^verbatim>\<open>Classify\<close> fails
  with \<^verbatim>\<open>ErrNotClassified\<close>: the winning label is the empty string, which the code
  reads as no label chosen.
\<close>

theorem empty_label_not_classified:
  "w_kot \<noteq> []
   \<and> getModelCategories trained_empty_label = [[]]
   \<and> getProb trained_empty_label w_kot [] = Inr 1
   \<and> Classify trained_empty_label w_kot = Inl ErrNotClassified"
proof -
  have p: "getProb trained_empty_label w_kot [] = Inr 1"
    by (simp add: getProb_def getTextProb_def trained_empty_label_state Tokenize_docs
        getWeightedProb_trained_empty_label)
  have c: "getModelCategories trained_empty_label = [[]]"
    by (simp add: getModelCategories_def trained_empty_label_state)
  have "Classify trained_empty_label w_kot = Inl ErrNotClassified"
    by (simp add: Classify_def c p name_neq)
  with p c show ?thesis
    by (simp add: name_neq)
qed

section \<open>Stopwords\<close>

lemma all_stopwords_l:
  "\<forall>w \<in> set stopwords. w \<noteq> w_yashchik"
  unfolding stopwords_def w_yashchik_def set_append ball_Un
  by (intro conjI)
     (simp_all add: stopwords_l10_def stopwords_l11_def stopwords_l12_def stopwords_l13_def
      stopwords_l14_def stopwords_l15_def stopwords_l16_def stopwords_l17_def stopwords_l18_def
      stopwords_l19_def stopwords_l20_def stopwords_l21_def stopwords_l22_def stopwords_l23_def
      stopwords_l24_def stopwords_l25_def stopwords_l26_def stopwords_l27_def stopwords_l28_def
      stopwords_l29_def stopwords_l30_def stopwords_l31_def stopwords_l32_def stopwords_l33_def
      stopwords_l34_def stopwords_l35_def stopwords_l36_def stopwords_l37_def stopwords_l38_def
      stopwords_l39_def stopwords_l40_def stopwords_l41_def)

text \<open>
  Claim C3 (the stopword list is sorted in the order the binary search uses). The list
  is not sorted: its first entry is greater than its second.
\<close>

theorem stopwords_not_sorted: "\<not> sorted stopwords"
proof
  assume "sorted stopwords"
  then have "stopwords ! 0 \<le> stopwords ! 1"
    by (rule sorted_nth_mono) (simp_all add: length_stopwords)
  then show False
    by (simp only: stopwords_nth) simp
qed

text \<open>
  Claim C4 (a word whose search position is at or past the end of the list is reported
  as not a stopword). For \<open>yashchik\<close>, which is not in the list, the search returns the
  length of the list and \<^verbatim>\<open>IsStopWord\<close> answers true.
\<close>

theorem past_the_end_is_stopword:
  "SearchStrings stopwords (ToLower w_yashchik) = numStopwords
   \<and> w_yashchik \<notin> set stopwords
   \<and> IsStopWord w_yashchik"
proof -
  have l: "ToLower w_yashchik = [1103, 1097, 1080, 1082]"
    by (simp add: w_yashchik_def ToLower_def ToLower_rune_def)
  have s: "SearchStrings stopwords (ToLower w_yashchik) = numStopwords"
    by (simp add: l SearchStrings_yashchik numStopwords_def length_stopwords)
  have "w_yashchik \<notin> set stopwords"
    using all_stopwords_l by blast
  moreover from s have "IsStopWord w_yashchik"
    by (simp add: IsStopWord_def)
  ultimately show ?thesis
    using s by simp
qed

text \<open>
  Claim C5 (the default tokenizer drops the stopword \<open>i\<close>, whatever its case). The word
  is in the list, yet it stays in the tokens of both documents; in the second document
  it is \<open>sobaka\<close> that is dropped.
\<close>

theorem stopword_i_not_dropped:
  "w_i \<in> set stopwords
   \<and> Tokenize NewTokenizer doc_the_i_cat = [w_the, w_i, w_cat]
   \<and> Tokenize NewTokenizer doc_I_sobaka = [w_i]"
proof -
  have "stopwords ! 237 \<in> set stopwords"
    by (rule nth_mem) (simp add: length_stopwords)
  then have "w_i \<in> set stopwords"
    by (simp add: stopwords_nth w_i_def)
  then show ?thesis
    by (simp add: Tokenize_docs)
qed

section \<open>Word counts\<close>

lemma map_of_incr: "map_of (incr m k) k' = (if k' = k then Some (get_int m k + 1) else map_of m k')"
  by (simp add: incr_def update_conv')

lemma map_of_count_fold:
  "map_of (fold (\<lambda>token wc. incr wc token) toks wc) t
     = (if t \<in> set toks then Some (get_int wc t + count_list toks t) else map_of wc t)"
proof (induction toks arbitrary: wc)
  case Nil
  show ?case by simp
next
  case (Cons x toks)
  show ?case
    by (auto simp: Cons.IH get_int_incr map_of_incr)
qed

lemma distinct_count_fold:
  "distinct (map fst wc) \<Longrightarrow>
   distinct (map fst (fold (\<lambda>token wc. incr wc token) toks wc))"
  by (induction toks arbitrary: wc) (simp_all add: distinct_incr)

text \<open>
  Claim C10. For every input, \<^verbatim>\<open>WordCounts\<close> returns no error and the map that has
  exactly the tokens of the default pipeline as keys, each with the number of its
  occurrences among them.
\<close>

theorem WordCounts_counts:
  "snd (WordCounts data) = None
   \<and> distinct (map fst (fst (WordCounts data)))
   \<and> (\<forall>t. map_of (fst (WordCounts data)) t
          = (if t \<in> set (Tokenize NewTokenizer data)
             then Some (count_list (Tokenize NewTokenizer data) t) else None))"
  by (simp add: WordCounts_def map_of_count_fold distinct_count_fold get_int_def)

text \<open>
  An instance: in the query document \<open>i\<close> is counted once and \<open>na\<close> is no key.
\<close>

theorem WordCounts_counts_witness:
  "snd (WordCounts doc_query) = None
   \<and> map_of (fst (WordCounts doc_query)) w_i = Some 1
   \<and> map_of (fst (WordCounts doc_query)) w_na = None"
proof -
  have "w_i \<in> set (Tokenize NewTokenizer doc_query)"
    by (simp add: Tokenize_docs)
  moreover have "w_na \<notin> set (Tokenize NewTokenizer doc_query)"
    by (simp add: Tokenize_docs word_defs)
  moreover have "count_list (Tokenize NewTokenizer doc_query) w_i = 1"
    by (simp add: Tokenize_docs word_defs)
  ultimately show ?thesis
    using WordCounts_counts [of doc_query] by simp
qed

end
